theory Spec2Isabelle
  imports Main "HOL-Library.AList" "HOL-Library.Sublist"
begin

section \<open>Python values, exceptions and dictionaries\<close>

text \<open>
  The lifecycle manager of the CollectionViewer plugin (\<^verbatim>\<open>lifecycle_manager.py\<close>)
  returns Python dictionaries, catches exceptions, reads and writes a file tree and talks
  to a database session. Each of these is made explicit here. A dictionary is an
  association list from keys to values; an exception is a value carrying its class and
  the text that \<^verbatim>\<open>str(e)\<close> gives.
\<close>

datatype pyval =
    PNone
  | PBool bool
  | PInt int
  | PStr string
  | PList "pyval list"
  | PDict "(string \<times> pyval) list"

type_synonym dict = "(string \<times> pyval) list"

datatype exn_class =
    JSONDecodeError
  | FileNotFoundError
  | KeyError
  | TypeError
  | AttributeError
  | OSError
  | OtherException

datatype exn = Exn exn_class string


text \<open>\<^verbatim>\<open>str(e)\<close>.\<close>

fun str_exn :: "exn \<Rightarrow> string" where
  "str_exn (Exn c msg) = msg"

text \<open>Python truthiness, as \<^verbatim>\<open>if x:\<close> and \<^verbatim>\<open>if not x:\<close> read a value.\<close>

fun truthy :: "pyval \<Rightarrow> bool" where
  "truthy PNone = False"
| "truthy (PBool b) = b"
| "truthy (PInt i) = (i \<noteq> 0)"
| "truthy (PStr s) = (s \<noteq> [])"
| "truthy (PList xs) = (xs \<noteq> [])"
| "truthy (PDict d) = (d \<noteq> [])"

text \<open>\<^verbatim>\<open>d[k]\<close>: a missing key raises KeyError, whose text is the quoted key.\<close>

definition getitem :: "dict \<Rightarrow> string \<Rightarrow> exn + pyval" where
  "getitem d k =
     (case map_of d k of
        None \<Rightarrow> Inl (Exn KeyError ([CHR 0x27] @ k @ [CHR 0x27]))
      | Some v \<Rightarrow> Inr v)"

text \<open>\<^verbatim>\<open>sep.join(xs)\<close>.\<close>

fun join :: "string \<Rightarrow> string list \<Rightarrow> string" where
  "join sep [] = []"
| "join sep [x] = x"
| "join sep (x # y # ys) = x @ sep @ join sep (y # ys)"

text \<open>\<^verbatim>\<open>s.endswith(suffix)\<close>.\<close>

definition endswith :: "string \<Rightarrow> string \<Rightarrow> bool" where
  "endswith s suf = (length suf \<le> length s \<and> drop (length s - length suf) s = suf)"



section \<open>Paths\<close>

text \<open>
  A \<^verbatim>\<open>pathlib.Path\<close> is the tuple of its \<^verbatim>\<open>parts\<close>; an absolute POSIX path
  has the root \<^verbatim>\<open>/\<close> as its first part.
\<close>

type_synonym path = "string list"

fun split_sep :: "char \<Rightarrow> string \<Rightarrow> string list" where
  "split_sep c [] = [[]]"
| "split_sep c (x # xs) =
     (if x = c then [] # split_sep c xs
      else (case split_sep c xs of
              [] \<Rightarrow> [[x]]
            | y # ys \<Rightarrow> (x # y) # ys))"

text \<open>
  \<^verbatim>\<open>Path(s)\<close>: empty and \<^verbatim>\<open>.\<close> components are dropped; one leading slash, or
  three and more, give the root \<^verbatim>\<open>/\<close>, exactly two give the root \<^verbatim>\<open>//\<close>.
\<close>

definition Path :: "string \<Rightarrow> path" where
  "Path s =
     (let comps = filter (\<lambda>p. p \<noteq> [] \<and> p \<noteq> ''.'') (split_sep (CHR ''/'') s) in
      if take 2 s = ''//'' \<and> take 3 s \<noteq> ''///'' then ''//'' # comps
      else if take 1 s = ''/'' then ''/'' # comps
      else comps)"

definition is_absolute :: "path \<Rightarrow> bool" where
  "is_absolute p = (case p of [] \<Rightarrow> False | r # _ \<Rightarrow> r = ''/'' \<or> r = ''//'')"

text \<open>\<^verbatim>\<open>p / q\<close> for two paths, and \<^verbatim>\<open>p / s\<close> for a path and a string.\<close>

definition pjoin_path :: "path \<Rightarrow> path \<Rightarrow> path" where
  "pjoin_path p q = (if is_absolute q then q else p @ q)"

definition pjoin :: "path \<Rightarrow> string \<Rightarrow> path" where
  "pjoin p s = pjoin_path p (Path s)"

text \<open>\<^verbatim>\<open>p.parent\<close>: the root and the empty path are their own parents.\<close>

definition parent :: "path \<Rightarrow> path" where
  "parent p = (if p = [] \<or> p = [''/''] \<or> p = [''//''] then p else butlast p)"

text \<open>\<^verbatim>\<open>p.name\<close>: the last part, empty for the root and the empty path.\<close>

definition name_of :: "path \<Rightarrow> string" where
  "name_of p = (if p = [] \<or> p = [''/''] \<or> p = [''//''] then [] else last p)"

text \<open>
  \<^verbatim>\<open>item.relative_to(source_dir)\<close>, for an item that \<^verbatim>\<open>source_dir.rglob\<close>
  produced: the parts below the directory.
\<close>

definition relative_to :: "path \<Rightarrow> path \<Rightarrow> path" where
  "relative_to item source_dir = drop (length source_dir) item"

text \<open>\<^verbatim>\<open>str(p)\<close> of a relative path.\<close>

definition str_path :: "path \<Rightarrow> string" where
  "str_path p = (if p = [] then ''.'' else join ''/'' p)"

section \<open>The file tree\<close>

datatype node = File string | Dir

type_synonym fsys = "(path \<times> node) list"

datatype fs_op =
    OpRglob path
  | OpMkdir path
  | OpUnlink path
  | OpCopy2 path path
  | OpOpen path
  | OpStat path

text \<open>
  What the program is given by its surroundings: the location of the running file
  (\<^verbatim>\<open>Path(__file__)\<close>), whether the host's \<^verbatim>\<open>BaseLifecycleManager\<close> could be
  imported, the formatted clock reading, which file operations raise (for whatever
  reason the operating system has: permissions, a full disk, a file in the way of a
  directory, source and destination being the same file), the JSON parser and printer,
  and the size the system reports for a directory.
\<close>

record env =
  this_file :: path
  host_base :: bool
  now :: string
  fs_fault :: "fs_op \<Rightarrow> exn option"
  json_load :: "string \<Rightarrow> exn + pyval"
  json_dumps :: "pyval \<Rightarrow> string"
  dir_size :: nat

definition path_exists :: "fsys \<Rightarrow> path \<Rightarrow> bool" where
  "path_exists fs p = (map_of fs p \<noteq> None)"

definition is_file :: "fsys \<Rightarrow> path \<Rightarrow> bool" where
  "is_file fs p = (case map_of fs p of Some (File c) \<Rightarrow> True | _ \<Rightarrow> False)"

definition is_dir :: "fsys \<Rightarrow> path \<Rightarrow> bool" where
  "is_dir fs p = (case map_of fs p of Some Dir \<Rightarrow> True | _ \<Rightarrow> False)"

text \<open>
  \<^verbatim>\<open>source_dir.rglob('*')\<close>: every entry strictly below the directory, in the order
  the tree lists them, taken when the loop starts.
\<close>

definition rglob :: "env \<Rightarrow> path \<Rightarrow> fsys \<Rightarrow> exn + path list" where
  "rglob e d fs =
     (case fs_fault e (OpRglob d) of
        Some x \<Rightarrow> Inl x
      | None \<Rightarrow> Inr (filter (\<lambda>p. length d < length p \<and> take (length d) p = d) (map fst fs)))"

text \<open>\<^verbatim>\<open>p.mkdir(parents=True, exist_ok=True)\<close>: every missing ancestor and the path itself become directories.\<close>

definition mkdir_parents :: "env \<Rightarrow> path \<Rightarrow> fsys \<Rightarrow> exn + fsys" where
  "mkdir_parents e p fs =
     (case fs_fault e (OpMkdir p) of
        Some x \<Rightarrow> Inl x
      | None \<Rightarrow>
          Inr (fold (\<lambda>q acc. if map_of acc q = None then AList.update q Dir acc else acc)
                 (map (\<lambda>n. take n p) [1..<Suc (length p)]) fs))"

text \<open>\<^verbatim>\<open>p.unlink()\<close>.\<close>

definition unlink :: "env \<Rightarrow> path \<Rightarrow> fsys \<Rightarrow> exn + fsys" where
  "unlink e p fs =
     (case fs_fault e (OpUnlink p) of
        Some x \<Rightarrow> Inl x
      | None \<Rightarrow> Inr (AList.delete p fs))"

text \<open>
  \<^verbatim>\<open>shutil.copy2(src, dst)\<close>: the contents of the file \<^verbatim>\<open>src\<close> are written to
  \<^verbatim>\<open>dst\<close>, or into \<^verbatim>\<open>dst\<close> under the name of \<^verbatim>\<open>src\<close> when \<^verbatim>\<open>dst\<close> is a
  directory. A source that is not a file raises.
\<close>

definition copy2 :: "env \<Rightarrow> path \<Rightarrow> path \<Rightarrow> fsys \<Rightarrow> exn + fsys" where
  "copy2 e src dst fs =
     (case fs_fault e (OpCopy2 src dst) of
        Some x \<Rightarrow> Inl x
      | None \<Rightarrow>
          (case map_of fs src of
             Some (File c) \<Rightarrow>
               Inr (AList.update (if is_dir fs dst then dst @ [name_of src] else dst) (File c) fs)
           | _ \<Rightarrow> Inl (Exn FileNotFoundError ''No such file'')))"



section \<open>Copying the plugin files\<close>

definition exclude_patterns :: "string list" where
  "exclude_patterns =
     [''node_modules'', ''package-lock.json'', ''.git'', ''.gitignore'', ''__pycache__'',
      ''*.pyc'', ''.DS_Store'']"

text \<open>
  \<^verbatim>\<open>should_copy\<close>: no part of the relative path is in the exclusion set, and the name
  does not end with what a starred pattern leaves once its star is removed.
\<close>

definition should_copy :: "path \<Rightarrow> bool" where
  "should_copy p =
     (\<not> list_ex (\<lambda>part. part \<in> set exclude_patterns) p \<and>
      \<not> list_ex (\<lambda>pattern. CHR ''*'' \<in> set pattern \<and>
                    endswith (name_of p) (filter (\<lambda>c. c \<noteq> CHR ''*'') pattern))
           exclude_patterns)"

definition success_false :: "exn \<Rightarrow> dict" where
  "success_false x = [(''success'', PBool False), (''error'', PStr (str_exn x))]"

text \<open>
  The body of the inner \<^verbatim>\<open>try\<close> of the copy loop for one item. The result says
  whether the item was a file that has been copied.
\<close>

definition copy_item :: "env \<Rightarrow> path \<Rightarrow> path \<Rightarrow> bool \<Rightarrow> fsys \<Rightarrow> (exn + bool) \<times> fsys" where
  "copy_item e item target_path upd fs =
     (if is_file fs item then
        (case mkdir_parents e (parent target_path) fs of
           Inl x \<Rightarrow> (Inl x, fs)
         | Inr fs1 \<Rightarrow>
             (case (if upd \<and> path_exists fs1 target_path then unlink e target_path fs1
                    else Inr fs1) of
                Inl x \<Rightarrow> (Inl x, fs1)
              | Inr fs2 \<Rightarrow>
                  (case copy2 e item target_path fs2 of
                     Inl x \<Rightarrow> (Inl x, fs2)
                   | Inr fs3 \<Rightarrow> (Inr True, fs3))))
      else if is_dir fs item then
        (case mkdir_parents e target_path fs of
           Inl x \<Rightarrow> (Inl x, fs)
         | Inr fs1 \<Rightarrow> (Inr False, fs1))
      else (Inr False, fs))"

text \<open>
  The loop over \<^verbatim>\<open>source_dir.rglob('*')\<close>. The running file itself is skipped, an
  excluded item is skipped, and an item whose copy raises is skipped after a warning.
  \<^verbatim>\<open>target_dir / relative_path\<close> appends the parts of the relative path.
\<close>

fun copy_items :: "env \<Rightarrow> path \<Rightarrow> path \<Rightarrow> bool \<Rightarrow> path list \<Rightarrow> string list \<Rightarrow> fsys
    \<Rightarrow> string list \<times> fsys" where
  "copy_items e source_dir target_dir upd [] copied_files fs = (copied_files, fs)"
| "copy_items e source_dir target_dir upd (item # items) copied_files fs =
     (if name_of item = ''lifecycle_manager.py'' \<and> item = this_file e then
        copy_items e source_dir target_dir upd items copied_files fs
      else
        (let relative_path = relative_to item source_dir in
         if \<not> should_copy relative_path then
           copy_items e source_dir target_dir upd items copied_files fs
         else
           (case copy_item e item (target_dir @ relative_path) upd fs of
              (Inl x, fs1) \<Rightarrow> copy_items e source_dir target_dir upd items copied_files fs1
            | (Inr was_file, fs1) \<Rightarrow>
                copy_items e source_dir target_dir upd items
                  (if was_file then copied_files @ [str_path relative_path] else copied_files)
                  fs1)))"

text \<open>
  \<^verbatim>\<open>_copy_plugin_files_impl\<close>. After the loop the manager's own file is copied
  outside the inner \<^verbatim>\<open>try\<close>; an exception there, or from \<^verbatim>\<open>rglob\<close>, reaches
  the outer handler.
\<close>

definition copy_plugin_files_impl :: "env \<Rightarrow> string \<Rightarrow> path \<Rightarrow> bool \<Rightarrow> fsys
    \<Rightarrow> (exn + dict) \<times> fsys" where
  "copy_plugin_files_impl e user_id target_dir upd fs =
     (let source_dir = parent (this_file e) in
      case rglob e source_dir fs of
        Inl x \<Rightarrow> (Inr (success_false x), fs)
      | Inr items \<Rightarrow>
          (case copy_items e source_dir target_dir upd items [] fs of
             (copied_files, fs1) \<Rightarrow>
               (let lifecycle_manager_source = pjoin source_dir ''lifecycle_manager.py'';
                    lifecycle_manager_target = pjoin target_dir ''lifecycle_manager.py'' in
                if path_exists fs1 lifecycle_manager_source then
                  (case mkdir_parents e (parent lifecycle_manager_target) fs1 of
                     Inl x \<Rightarrow> (Inr (success_false x), fs1)
                   | Inr fs2 \<Rightarrow>
                       (case (if upd \<and> path_exists fs2 lifecycle_manager_target
                              then unlink e lifecycle_manager_target fs2 else Inr fs2) of
                          Inl x \<Rightarrow> (Inr (success_false x), fs2)
                        | Inr fs3 \<Rightarrow>
                            (case copy2 e lifecycle_manager_source lifecycle_manager_target fs3 of
                               Inl x \<Rightarrow> (Inr (success_false x), fs3)
                             | Inr fs4 \<Rightarrow>
                                 (Inr [(''success'', PBool True),
                                       (''copied_files'',
                                          PList (map PStr (copied_files @ [''lifecycle_manager.py''])))],
                                  fs4))))
                else
                  (Inr [(''success'', PBool True),
                        (''copied_files'', PList (map PStr copied_files))],
                   fs1))))"

section \<open>Validation and health\<close>







section \<open>The plugin's constant metadata\<close>

text \<open>
  \<^verbatim>\<open>self.plugin_data\<close> and the single entry of \<^verbatim>\<open>self.module_data\<close>, set by the
  constructor. Both are dictionaries with fixed literal keys and are read with literal
  keys only, so each is a record of its entries. An entry that holds \<^verbatim>\<open>None\<close> has
  an option type.
\<close>

record plugin_data_t =
  pd_name :: string
  pd_description :: string
  pd_version :: string
  pd_type :: string
  pd_icon :: string
  pd_category :: string
  pd_official :: bool
  pd_author :: string
  pd_compatibility :: string
  pd_scope :: string
  pd_bundle_method :: string
  pd_bundle_location :: string
  pd_is_local :: bool
  pd_long_description :: string
  pd_plugin_slug :: string
  pd_source_type :: string
  pd_source_url :: string
  pd_update_check_url :: string
  pd_last_update_check :: "string option"
  pd_update_available :: bool
  pd_latest_version :: "string option"
  pd_installation_type :: string
  pd_permissions :: "string list"

definition plugin_data :: plugin_data_t where
  "plugin_data =
     \<lparr> pd_name = ''CollectionViewer'',
       pd_description = ''View and browse your document collections'',
       pd_version = ''1.0.0'',
       pd_type = ''frontend'',
       pd_icon = ''folder_open'',
       pd_category = ''Data Management'',
       pd_official = False,
       pd_author = ''BrainDrive Team'',
       pd_compatibility = ''1.0.0'',
       pd_scope = ''CollectionViewer'',
       pd_bundle_method = ''webpack'',
       pd_bundle_location = ''dist/remoteEntry.js'',
       pd_is_local = False,
       pd_long_description = ''A simple, functional React component plugin that fetches and displays collections from your BrainDrive instance. Built with modern React hooks and TypeScript.'',
       pd_plugin_slug = ''CollectionViewer'',
       pd_source_type = ''local'',
       pd_source_url = [],
       pd_update_check_url = [],
       pd_last_update_check = None,
       pd_update_available = False,
       pd_latest_version = None,
       pd_installation_type = ''remote'',
       pd_permissions = [''api.access''] \<rparr>"

record module_data_t =
  md_name :: string
  md_display_name :: string
  md_description :: string
  md_icon :: string
  md_category :: string
  md_priority :: int
  md_props :: dict
  md_config_fields :: dict
  md_messages :: dict
  md_required_services :: dict
  md_dependencies :: "pyval list"
  md_layout :: dict
  md_tags :: "string list"

definition module_data :: "module_data_t list" where
  "module_data =
     [\<lparr> md_name = ''CollectionViewer'',
        md_display_name = ''Collection Viewer'',
        md_description = ''View all your document collections with details'',
        md_icon = ''folder_open'',
        md_category = ''Data Management'',
        md_priority = 1,
        md_props = [],
        md_config_fields = [],
        md_messages = [],
        md_required_services = [],
        md_dependencies = [],
        md_layout = [(''minWidth'', PInt 4), (''minHeight'', PInt 4),
                     (''defaultWidth'', PInt 8), (''defaultHeight'', PInt 6)],
        md_tags = [''collections'', ''viewer'', ''documents'', ''data''] \<rparr>]"

definition py_opt_str :: "string option \<Rightarrow> pyval" where
  "py_opt_str v = (case v of None \<Rightarrow> PNone | Some s \<Rightarrow> PStr s)"

section \<open>The database session\<close>

text \<open>
  A row is the dictionary of its columns; a column the row does not have reads as NULL
  (\<open>PNone\<close>). The session holds the tables as the statements of the current
  transaction see them, and the tables as last committed. Whether a call raises is the
  surroundings' decision: each \<^verbatim>\<open>execute\<close> and \<^verbatim>\<open>commit\<close> takes the next entry of
  \<open>faults\<close>, each \<^verbatim>\<open>rollback\<close> the next entry of \<open>rollback_faults\<close>; a call past the
  end of its list does not raise. A call that raises changes no table. Every call is
  recorded in \<open>calls\<close>, oldest first. The schema and its constraints belong to the
  host; a constraint violation is one of the reasons a call may raise.
\<close>

type_synonym row = "(string \<times> pyval) list"

datatype sql_stmt =
    Plugin_query
  | Plugin_stmt
  | Module_stmt
  | Module_delete_stmt
  | Plugin_delete_stmt

datatype db_call = Execute sql_stmt | Commit | Rollback

record db_session =
  plugin_tbl :: "row list"
  module_tbl :: "row list"
  committed_plugin :: "row list"
  committed_module :: "row list"
  faults :: "exn option list"
  rollback_faults :: "exn option list"
  calls :: "db_call list"

record exec_result =
  result_rows :: "row list"
  rowcount :: int

definition col :: "row \<Rightarrow> string \<Rightarrow> pyval" where
  "col r k = (case map_of r k of None \<Rightarrow> PNone | Some v \<Rightarrow> v)"

text \<open>SQL equality of a column with a bound parameter: never true of NULL.\<close>

definition sql_eq :: "pyval \<Rightarrow> pyval \<Rightarrow> bool" where
  "sql_eq a b = (a \<noteq> PNone \<and> a = b)"

definition next_fault :: "exn option list \<Rightarrow> exn option" where
  "next_fault fl = (case fl of [] \<Rightarrow> None | f # _ \<Rightarrow> f)"

text \<open>
  The five statements of the file, by the names of the variables that hold them:
  \<^item> \<open>Plugin_query\<close>: \<^verbatim>\<open>SELECT id, name, version, enabled FROM plugin WHERE user_id = :user_id AND plugin_slug = :plugin_slug\<close>;
  \<^item> \<open>Plugin_stmt\<close>, \<open>Module_stmt\<close>: \<^verbatim>\<open>INSERT INTO plugin\<close> and \<^verbatim>\<open>INSERT INTO module\<close>,
    whose column lists are the names of their parameters;
  \<^item> \<open>Module_delete_stmt\<close>: \<^verbatim>\<open>DELETE FROM module WHERE plugin_id = :plugin_id AND user_id = :user_id\<close>;
  \<^item> \<open>Plugin_delete_stmt\<close>: \<^verbatim>\<open>DELETE FROM plugin WHERE id = :plugin_id AND user_id = :user_id\<close>.
\<close>

definition plugin_query_matches :: "row \<Rightarrow> row \<Rightarrow> bool" where
  "plugin_query_matches params r =
     (sql_eq (col r ''user_id'') (col params ''user_id'') \<and>
      sql_eq (col r ''plugin_slug'') (col params ''plugin_slug''))"

definition module_delete_matches :: "row \<Rightarrow> row \<Rightarrow> bool" where
  "module_delete_matches params r =
     (sql_eq (col r ''plugin_id'') (col params ''plugin_id'') \<and>
      sql_eq (col r ''user_id'') (col params ''user_id''))"

definition plugin_delete_matches :: "row \<Rightarrow> row \<Rightarrow> bool" where
  "plugin_delete_matches params r =
     (sql_eq (col r ''id'') (col params ''plugin_id'') \<and>
      sql_eq (col r ''user_id'') (col params ''user_id''))"

definition select_columns :: "string list \<Rightarrow> row \<Rightarrow> row" where
  "select_columns cs r = map (\<lambda>c. (c, col r c)) cs"

fun run_stmt :: "sql_stmt \<Rightarrow> row \<Rightarrow> db_session \<Rightarrow> exec_result \<times> db_session" where
  "run_stmt Plugin_query params s =
     (\<lparr> result_rows = map (select_columns [''id'', ''name'', ''version'', ''enabled''])
                         (filter (plugin_query_matches params) (plugin_tbl s)),
         rowcount = - 1 \<rparr>, s)"
| "run_stmt Plugin_stmt params s =
     (\<lparr> result_rows = [], rowcount = 1 \<rparr>, s\<lparr> plugin_tbl := plugin_tbl s @ [params] \<rparr>)"
| "run_stmt Module_stmt params s =
     (\<lparr> result_rows = [], rowcount = 1 \<rparr>, s\<lparr> module_tbl := module_tbl s @ [params] \<rparr>)"
| "run_stmt Module_delete_stmt params s =
     (\<lparr> result_rows = [],
         rowcount = int (length (filter (module_delete_matches params) (module_tbl s))) \<rparr>,
      s\<lparr> module_tbl := filter (\<lambda>r. \<not> module_delete_matches params r) (module_tbl s) \<rparr>)"
| "run_stmt Plugin_delete_stmt params s =
     (\<lparr> result_rows = [],
         rowcount = int (length (filter (plugin_delete_matches params) (plugin_tbl s))) \<rparr>,
      s\<lparr> plugin_tbl := filter (\<lambda>r. \<not> plugin_delete_matches params r) (plugin_tbl s) \<rparr>)"

text \<open>\<^verbatim>\<open>await db.execute(stmt, params)\<close>.\<close>

definition execute :: "sql_stmt \<Rightarrow> row \<Rightarrow> db_session \<Rightarrow> (exn + exec_result) \<times> db_session" where
  "execute stmt params s =
     (let s1 = s\<lparr> faults := tl (faults s), calls := calls s @ [Execute stmt] \<rparr> in
      case next_fault (faults s) of
        Some x \<Rightarrow> (Inl x, s1)
      | None \<Rightarrow> (case run_stmt stmt params s1 of (res, s2) \<Rightarrow> (Inr res, s2)))"

text \<open>\<^verbatim>\<open>await db.commit()\<close>.\<close>

definition commit :: "db_session \<Rightarrow> (exn + unit) \<times> db_session" where
  "commit s =
     (let s1 = s\<lparr> faults := tl (faults s), calls := calls s @ [Commit] \<rparr> in
      case next_fault (faults s) of
        Some x \<Rightarrow> (Inl x, s1)
      | None \<Rightarrow>
          (Inr (), s1\<lparr> committed_plugin := plugin_tbl s1, committed_module := module_tbl s1 \<rparr>))"

text \<open>\<^verbatim>\<open>await db.rollback()\<close>.\<close>

definition rollback :: "db_session \<Rightarrow> (exn + unit) \<times> db_session" where
  "rollback s =
     (let s1 = s\<lparr> rollback_faults := tl (rollback_faults s), calls := calls s @ [Rollback] \<rparr> in
      case next_fault (rollback_faults s) of
        Some x \<Rightarrow> (Inl x, s1)
      | None \<Rightarrow> (Inr (), s1\<lparr> plugin_tbl := committed_plugin s1, module_tbl := committed_module s1 \<rparr>))"

text \<open>\<^verbatim>\<open>result.fetchone()\<close>.\<close>

definition fetchone :: "exec_result \<Rightarrow> row option" where
  "fetchone res = (case result_rows res of [] \<Rightarrow> None | r # _ \<Rightarrow> Some r)"

section \<open>The lifecycle manager\<close>

text \<open>
  The state of a manager object, as \<^verbatim>\<open>BaseLifecycleManager.__init__\<close> sets it. The
  file imports \<^verbatim>\<open>BaseLifecycleManager\<close> from the host and, when the host's module is
  not found, declares a minimal class of its own. The host's class is not part of this
  repository; the minimal class the file carries is taken as its behaviour in both cases.
\<close>

record manager =
  plugin_slug :: string
  version :: string
  shared_path :: path
  active_users :: "string set"
  instance_id :: string
  created_at :: string
  last_used :: string

text \<open>
  \<^verbatim>\<open>CollectionViewerLifecycleManager.__init__\<close>. The test \<^verbatim>\<open>if plugins_base_dir:\<close>
  is Python truthiness: \<^verbatim>\<open>None\<close> and the empty string both take the \<^verbatim>\<open>else\<close>
  branch.
\<close>

definition CollectionViewerLifecycleManager :: "env \<Rightarrow> string option \<Rightarrow> manager" where
  "CollectionViewerLifecycleManager e plugins_base_dir =
     (let shared_path =
            (case plugins_base_dir of
               None \<Rightarrow> parent (this_file e)
             | Some b \<Rightarrow>
                 (if b \<noteq> [] then
                    pjoin (pjoin (pjoin (Path b) ''shared'') (pd_plugin_slug plugin_data))
                      (''v'' @ pd_version plugin_data)
                  else parent (this_file e))) in
      \<lparr> plugin_slug = pd_plugin_slug plugin_data,
        version = pd_version plugin_data,
        shared_path = shared_path,
        active_users = {},
        instance_id = pd_plugin_slug plugin_data @ ''_'' @ pd_version plugin_data,
        created_at = now e,
        last_used = now e \<rparr>)"

text \<open>\<^verbatim>\<open>_check_existing_plugin\<close>. A row object is truthy.\<close>

definition check_existing_plugin :: "string \<Rightarrow> db_session \<Rightarrow> (exn + dict) \<times> db_session" where
  "check_existing_plugin user_id s =
     (case execute Plugin_query
             [(''user_id'', PStr user_id), (''plugin_slug'', PStr (pd_plugin_slug plugin_data))] s of
        (Inl x, s1) \<Rightarrow> (Inr [(''exists'', PBool False), (''error'', PStr (str_exn x))], s1)
      | (Inr result, s1) \<Rightarrow>
          (case fetchone result of
             Some plugin_row \<Rightarrow>
               (Inr [(''exists'', PBool True),
                     (''plugin_id'', col plugin_row ''id''),
                     (''plugin_info'',
                        PDict [(''id'', col plugin_row ''id''),
                               (''name'', col plugin_row ''name''),
                               (''version'', col plugin_row ''version''),
                               (''enabled'', col plugin_row ''enabled'')])],
                s1)
           | None \<Rightarrow> (Inr [(''exists'', PBool False)], s1)))"

text \<open>The parameters of the two \<^verbatim>\<open>INSERT\<close> statements.\<close>

definition plugin_params :: "env \<Rightarrow> string \<Rightarrow> string \<Rightarrow> string \<Rightarrow> row" where
  "plugin_params e user_id plugin_id current_time =
     [(''id'', PStr plugin_id),
      (''name'', PStr (pd_name plugin_data)),
      (''description'', PStr (pd_description plugin_data)),
      (''version'', PStr (pd_version plugin_data)),
      (''type'', PStr (pd_type plugin_data)),
      (''enabled'', PBool True),
      (''icon'', PStr (pd_icon plugin_data)),
      (''category'', PStr (pd_category plugin_data)),
      (''status'', PStr ''activated''),
      (''official'', PBool (pd_official plugin_data)),
      (''author'', PStr (pd_author plugin_data)),
      (''last_updated'', PStr current_time),
      (''compatibility'', PStr (pd_compatibility plugin_data)),
      (''downloads'', PInt 0),
      (''scope'', PStr (pd_scope plugin_data)),
      (''bundle_method'', PStr (pd_bundle_method plugin_data)),
      (''bundle_location'', PStr (pd_bundle_location plugin_data)),
      (''is_local'', PBool (pd_is_local plugin_data)),
      (''long_description'', PStr (pd_long_description plugin_data)),
      (''config_fields'', PStr (json_dumps e (PDict []))),
      (''messages'', PNone),
      (''dependencies'', PNone),
      (''created_at'', PStr current_time),
      (''updated_at'', PStr current_time),
      (''user_id'', PStr user_id),
      (''plugin_slug'', PStr (pd_plugin_slug plugin_data)),
      (''source_type'', PStr (pd_source_type plugin_data)),
      (''source_url'', PStr (pd_source_url plugin_data)),
      (''update_check_url'', PStr (pd_update_check_url plugin_data)),
      (''last_update_check'', py_opt_str (pd_last_update_check plugin_data)),
      (''update_available'', PBool (pd_update_available plugin_data)),
      (''latest_version'', py_opt_str (pd_latest_version plugin_data)),
      (''installation_type'', PStr (pd_installation_type plugin_data)),
      (''permissions'', PStr (json_dumps e (PList (map PStr (pd_permissions plugin_data)))))]"

definition module_params :: "env \<Rightarrow> string \<Rightarrow> string \<Rightarrow> string \<Rightarrow> module_data_t \<Rightarrow> string \<Rightarrow> row" where
  "module_params e user_id plugin_id module_id md current_time =
     [(''id'', PStr module_id),
      (''plugin_id'', PStr plugin_id),
      (''name'', PStr (md_name md)),
      (''display_name'', PStr (md_display_name md)),
      (''description'', PStr (md_description md)),
      (''icon'', PStr (md_icon md)),
      (''category'', PStr (md_category md)),
      (''enabled'', PBool True),
      (''priority'', PInt (md_priority md)),
      (''props'', PStr (json_dumps e (PDict (md_props md)))),
      (''config_fields'', PStr (json_dumps e (PDict (md_config_fields md)))),
      (''messages'', PStr (json_dumps e (PDict (md_messages md)))),
      (''required_services'', PStr (json_dumps e (PDict (md_required_services md)))),
      (''dependencies'', PStr (json_dumps e (PList (md_dependencies md)))),
      (''layout'', PStr (json_dumps e (PDict (md_layout md)))),
      (''tags'', PStr (json_dumps e (PList (map PStr (md_tags md))))),
      (''created_at'', PStr current_time),
      (''updated_at'', PStr current_time),
      (''user_id'', PStr user_id)]"

text \<open>The loop over \<^verbatim>\<open>self.module_data\<close> in \<^verbatim>\<open>_create_database_records\<close>.\<close>

fun insert_modules :: "env \<Rightarrow> string \<Rightarrow> string \<Rightarrow> string \<Rightarrow> module_data_t list \<Rightarrow> pyval list
    \<Rightarrow> db_session \<Rightarrow> (exn + pyval list) \<times> db_session" where
  "insert_modules e user_id plugin_id current_time [] modules_created s = (Inr modules_created, s)"
| "insert_modules e user_id plugin_id current_time (md # mds) modules_created s =
     (let module_id = user_id @ ''_'' @ pd_plugin_slug plugin_data @ ''_'' @ md_name md in
      case execute Module_stmt (module_params e user_id plugin_id module_id md current_time) s of
        (Inl x, s1) \<Rightarrow> (Inl x, s1)
      | (Inr r, s1) \<Rightarrow>
          insert_modules e user_id plugin_id current_time mds
            (modules_created @ [PStr module_id]) s1)"

text \<open>
  The text of the AttributeError that \<^verbatim>\<open>datetime.datetime.now()\<close> raises when the
  file runs on its own minimal base class: on that path the module-level statement
  \<^verbatim>\<open>from datetime import datetime\<close> has rebound the global name \<^verbatim>\<open>datetime\<close>
  from the module to the class, which has no attribute \<^verbatim>\<open>datetime\<close>.
\<close>

definition datetime_attribute_error :: exn where
  "datetime_attribute_error =
     Exn AttributeError
       (''type object '' @ [CHR 0x27] @ ''datetime.datetime'' @ [CHR 0x27] @
        '' has no attribute '' @ [CHR 0x27] @ ''datetime'' @ [CHR 0x27])"

text \<open>The \<^verbatim>\<open>try\<close> block of \<^verbatim>\<open>_create_database_records\<close>.\<close>

definition create_database_records_try :: "env \<Rightarrow> string \<Rightarrow> db_session \<Rightarrow> (exn + dict) \<times> db_session" where
  "create_database_records_try e user_id s =
     (if \<not> host_base e then (Inl datetime_attribute_error, s)
      else
        (let current_time = now e;
             plugin_id = user_id @ ''_'' @ pd_plugin_slug plugin_data in
         case execute Plugin_stmt (plugin_params e user_id plugin_id current_time) s of
           (Inl x, s1) \<Rightarrow> (Inl x, s1)
         | (Inr r, s1) \<Rightarrow>
             (case insert_modules e user_id plugin_id current_time module_data [] s1 of
                (Inl x, s2) \<Rightarrow> (Inl x, s2)
              | (Inr modules_created, s2) \<Rightarrow>
                  (case commit s2 of
                     (Inl x, s3) \<Rightarrow> (Inl x, s3)
                   | (Inr u, s3) \<Rightarrow>
                       (Inr [(''success'', PBool True),
                             (''plugin_id'', PStr plugin_id),
                             (''modules_created'', PList modules_created)],
                        s3)))))"

text \<open>
  The \<^verbatim>\<open>except Exception\<close> handler shared by \<^verbatim>\<open>_create_database_records\<close> and
  \<^verbatim>\<open>_delete_database_records\<close>: roll back, then return the failure. An exception of
  the rollback itself leaves the method.
\<close>

definition rollback_and_fail :: "exn \<Rightarrow> db_session \<Rightarrow> (exn + dict) \<times> db_session" where
  "rollback_and_fail x s =
     (case rollback s of
        (Inl y, s1) \<Rightarrow> (Inl y, s1)
      | (Inr u, s1) \<Rightarrow> (Inr (success_false x), s1))"

text \<open>\<^verbatim>\<open>_create_database_records\<close>.\<close>

definition create_database_records :: "env \<Rightarrow> string \<Rightarrow> db_session \<Rightarrow> (exn + dict) \<times> db_session" where
  "create_database_records e user_id s =
     (case create_database_records_try e user_id s of
        (Inl x, s1) \<Rightarrow> rollback_and_fail x s1
      | (Inr result, s1) \<Rightarrow> (Inr result, s1))"

text \<open>The \<^verbatim>\<open>try\<close> block of \<^verbatim>\<open>_delete_database_records\<close>.\<close>

definition delete_database_records_try :: "string \<Rightarrow> pyval \<Rightarrow> db_session \<Rightarrow> (exn + dict) \<times> db_session" where
  "delete_database_records_try user_id plugin_id s =
     (let params = [(''plugin_id'', plugin_id), (''user_id'', PStr user_id)] in
      case execute Module_delete_stmt params s of
        (Inl x, s1) \<Rightarrow> (Inl x, s1)
      | (Inr module_result, s1) \<Rightarrow>
          (let deleted_modules = rowcount module_result in
           case execute Plugin_delete_stmt params s1 of
             (Inl x, s2) \<Rightarrow> (Inl x, s2)
           | (Inr plugin_result, s2) \<Rightarrow>
               (if rowcount plugin_result = 0 then
                  (case rollback s2 of
                     (Inl x, s3) \<Rightarrow> (Inl x, s3)
                   | (Inr u, s3) \<Rightarrow>
                       (Inr [(''success'', PBool False), (''error'', PStr ''Plugin not found'')], s3))
                else
                  (case commit s2 of
                     (Inl x, s3) \<Rightarrow> (Inl x, s3)
                   | (Inr u, s3) \<Rightarrow>
                       (Inr [(''success'', PBool True), (''deleted_modules'', PInt deleted_modules)],
                        s3)))))"

text \<open>\<^verbatim>\<open>_delete_database_records\<close>.\<close>

definition delete_database_records :: "string \<Rightarrow> pyval \<Rightarrow> db_session \<Rightarrow> (exn + dict) \<times> db_session" where
  "delete_database_records user_id plugin_id s =
     (case delete_database_records_try user_id plugin_id s of
        (Inl x, s1) \<Rightarrow> rollback_and_fail x s1
      | (Inr result, s1) \<Rightarrow> (Inr result, s1))"

text \<open>
  \<^verbatim>\<open>_perform_user_installation\<close>. Its \<^verbatim>\<open>except Exception\<close> handler turns every
  exception of the body into a failure result.
\<close>

definition perform_user_installation_try :: "env \<Rightarrow> string \<Rightarrow> db_session \<Rightarrow> path
    \<Rightarrow> (exn + dict) \<times> db_session" where
  "perform_user_installation_try e user_id s shared_plugin_path =
     (case create_database_records e user_id s of
        (Inl x, s1) \<Rightarrow> (Inl x, s1)
      | (Inr db_result, s1) \<Rightarrow>
          (case getitem db_result ''success'' of
             Inl x \<Rightarrow> (Inl x, s1)
           | Inr ok \<Rightarrow>
               (if \<not> truthy ok then (Inr db_result, s1)
                else
                  (case getitem db_result ''plugin_id'' of
                     Inl x \<Rightarrow> (Inl x, s1)
                   | Inr plugin_id \<Rightarrow>
                       (case getitem db_result ''modules_created'' of
                          Inl x \<Rightarrow> (Inl x, s1)
                        | Inr modules_created \<Rightarrow>
                            (Inr [(''success'', PBool True),
                                  (''plugin_id'', plugin_id),
                                  (''plugin_slug'', PStr (pd_plugin_slug plugin_data)),
                                  (''plugin_name'', PStr (pd_name plugin_data)),
                                  (''modules_created'', modules_created)],
                             s1))))))"

definition perform_user_installation :: "env \<Rightarrow> string \<Rightarrow> db_session \<Rightarrow> path
    \<Rightarrow> (exn + dict) \<times> db_session" where
  "perform_user_installation e user_id s shared_plugin_path =
     (case perform_user_installation_try e user_id s shared_plugin_path of
        (Inl x, s1) \<Rightarrow> (Inr (success_false x), s1)
      | (Inr result, s1) \<Rightarrow> (Inr result, s1))"

text \<open>\<^verbatim>\<open>_perform_user_uninstallation\<close>.\<close>

definition perform_user_uninstallation_try :: "string \<Rightarrow> db_session \<Rightarrow> (exn + dict) \<times> db_session" where
  "perform_user_uninstallation_try user_id s =
     (case check_existing_plugin user_id s of
        (Inl x, s1) \<Rightarrow> (Inl x, s1)
      | (Inr existing_check, s1) \<Rightarrow>
          (case getitem existing_check ''exists'' of
             Inl x \<Rightarrow> (Inl x, s1)
           | Inr ex \<Rightarrow>
               (if \<not> truthy ex then
                  (Inr [(''success'', PBool False), (''error'', PStr ''Plugin not found for user'')], s1)
                else
                  (case getitem existing_check ''plugin_id'' of
                     Inl x \<Rightarrow> (Inl x, s1)
                   | Inr plugin_id \<Rightarrow>
                       (case delete_database_records user_id plugin_id s1 of
                          (Inl x, s2) \<Rightarrow> (Inl x, s2)
                        | (Inr delete_result, s2) \<Rightarrow>
                            (case getitem delete_result ''success'' of
                               Inl x \<Rightarrow> (Inl x, s2)
                             | Inr ok \<Rightarrow>
                                 (if \<not> truthy ok then (Inr delete_result, s2)
                                  else
                                    (case getitem delete_result ''deleted_modules'' of
                                       Inl x \<Rightarrow> (Inl x, s2)
                                     | Inr deleted_modules \<Rightarrow>
                                         (Inr [(''success'', PBool True),
                                               (''plugin_id'', plugin_id),
                                               (''deleted_modules'', deleted_modules)],
                                          s2)))))))))"

definition perform_user_uninstallation :: "string \<Rightarrow> db_session \<Rightarrow> (exn + dict) \<times> db_session" where
  "perform_user_uninstallation user_id s =
     (case perform_user_uninstallation_try user_id s of
        (Inl x, s1) \<Rightarrow> (Inr (success_false x), s1)
      | (Inr result, s1) \<Rightarrow> (Inr result, s1))"

text \<open>\<^verbatim>\<open>BaseLifecycleManager.install_for_user\<close> and \<^verbatim>\<open>uninstall_for_user\<close> (the minimal class).\<close>

definition install_for_user :: "env \<Rightarrow> manager \<Rightarrow> string \<Rightarrow> db_session \<Rightarrow> path
    \<Rightarrow> (exn + dict) \<times> manager \<times> db_session" where
  "install_for_user e m user_id s shared_plugin_path =
     (if user_id \<in> active_users m then
        (Inr [(''success'', PBool False), (''error'', PStr ''Plugin already installed for user'')], m, s)
      else
        (case perform_user_installation e user_id s shared_plugin_path of
           (Inl x, s1) \<Rightarrow> (Inl x, m, s1)
         | (Inr result, s1) \<Rightarrow>
             (case getitem result ''success'' of
                Inl x \<Rightarrow> (Inl x, m, s1)
              | Inr ok \<Rightarrow>
                  (if truthy ok then
                     (Inr result,
                      m\<lparr> active_users := insert user_id (active_users m), last_used := now e \<rparr>, s1)
                   else (Inr result, m, s1)))))"

definition uninstall_for_user :: "env \<Rightarrow> manager \<Rightarrow> string \<Rightarrow> db_session
    \<Rightarrow> (exn + dict) \<times> manager \<times> db_session" where
  "uninstall_for_user e m user_id s =
     (if user_id \<notin> active_users m then
        (Inr [(''success'', PBool False), (''error'', PStr ''Plugin not installed for user'')], m, s)
      else
        (case perform_user_uninstallation user_id s of
           (Inl x, s1) \<Rightarrow> (Inl x, m, s1)
         | (Inr result, s1) \<Rightarrow>
             (case getitem result ''success'' of
                Inl x \<Rightarrow> (Inl x, m, s1)
              | Inr ok \<Rightarrow>
                  (if truthy ok then
                     (Inr result,
                      m\<lparr> active_users := active_users m - {user_id}, last_used := now e \<rparr>, s1)
                   else (Inr result, m, s1)))))"

text \<open>
  The \<^verbatim>\<open>try\<close> block of the method \<^verbatim>\<open>install_plugin\<close>, in two parts: the steps
  after the existence check (make the shared directory, copy the files, install for the
  user), and the check that guards them.
\<close>

definition install_plugin_proceed :: "env \<Rightarrow> manager \<Rightarrow> string \<Rightarrow> db_session \<Rightarrow> fsys
    \<Rightarrow> (exn + dict) \<times> manager \<times> db_session \<times> fsys" where
  "install_plugin_proceed e m user_id s fs =
     (case mkdir_parents e (shared_path m) fs of
        Inl x \<Rightarrow> (Inl x, m, s, fs)
      | Inr fs1 \<Rightarrow>
          (case copy_plugin_files_impl e user_id (shared_path m) False fs1 of
             (Inl x, fs2) \<Rightarrow> (Inl x, m, s, fs2)
           | (Inr copy_result, fs2) \<Rightarrow>
               (case getitem copy_result ''success'' of
                  Inl x \<Rightarrow> (Inl x, m, s, fs2)
                | Inr ok \<Rightarrow>
                    (if \<not> truthy ok then (Inr copy_result, m, s, fs2)
                     else
                       (case install_for_user e m user_id s (shared_path m) of
                          (Inl x, m1, s1) \<Rightarrow> (Inl x, m1, s1, fs2)
                        | (Inr result, m1, s1) \<Rightarrow> (Inr result, m1, s1, fs2))))))"

definition install_plugin_try :: "env \<Rightarrow> manager \<Rightarrow> string \<Rightarrow> db_session \<Rightarrow> fsys
    \<Rightarrow> (exn + dict) \<times> manager \<times> db_session \<times> fsys" where
  "install_plugin_try e m user_id s fs =
     (case check_existing_plugin user_id s of
        (Inl x, s1) \<Rightarrow> (Inl x, m, s1, fs)
      | (Inr existing_check, s1) \<Rightarrow>
          (case getitem existing_check ''exists'' of
             Inl x \<Rightarrow> (Inl x, m, s1, fs)
           | Inr ex \<Rightarrow>
               (if truthy ex then
                  (Inr [(''success'', PBool False), (''error'', PStr ''Plugin already installed'')],
                   m, s1, fs)
                else install_plugin_proceed e m user_id s1 fs)))"

text \<open>The method \<^verbatim>\<open>CollectionViewerLifecycleManager.install_plugin\<close>.\<close>

definition install_plugin :: "env \<Rightarrow> manager \<Rightarrow> string \<Rightarrow> db_session \<Rightarrow> fsys
    \<Rightarrow> (exn + dict) \<times> manager \<times> db_session \<times> fsys" where
  "install_plugin e m user_id s fs =
     (case install_plugin_try e m user_id s fs of
        (Inl x, m1, s1, fs1) \<Rightarrow> (Inr (success_false x), m1, s1, fs1)
      | (Inr result, m1, s1, fs1) \<Rightarrow> (Inr result, m1, s1, fs1))"

text \<open>The method \<^verbatim>\<open>CollectionViewerLifecycleManager.delete_plugin\<close>.\<close>

definition delete_plugin :: "env \<Rightarrow> manager \<Rightarrow> string \<Rightarrow> db_session
    \<Rightarrow> (exn + dict) \<times> manager \<times> db_session" where
  "delete_plugin e m user_id s = uninstall_for_user e m user_id s"

text \<open>
  The module-level functions \<^verbatim>\<open>install_plugin\<close> and \<^verbatim>\<open>delete_plugin\<close>: each makes a
  new manager and calls the method of the same name.
\<close>

definition standalone_install_plugin :: "env \<Rightarrow> string \<Rightarrow> db_session \<Rightarrow> fsys \<Rightarrow> string option
    \<Rightarrow> (exn + dict) \<times> manager \<times> db_session \<times> fsys" where
  "standalone_install_plugin e user_id s fs plugins_base_dir =
     install_plugin e (CollectionViewerLifecycleManager e plugins_base_dir) user_id s fs"

definition standalone_delete_plugin :: "env \<Rightarrow> string \<Rightarrow> db_session \<Rightarrow> string option
    \<Rightarrow> (exn + dict) \<times> manager \<times> db_session" where
  "standalone_delete_plugin e user_id s plugins_base_dir =
     delete_plugin e (CollectionViewerLifecycleManager e plugins_base_dir) user_id s"

section \<open>Notions used in the statements\<close>

text \<open>
  A plugin row of a user for this plugin, as the query of \<^verbatim>\<open>_check_existing_plugin\<close>
  selects it, and a module row of that user that references the plugin id the manager
  gives the user.
\<close>

definition plugin_row_of :: "string \<Rightarrow> row \<Rightarrow> bool" where
  "plugin_row_of user_id r =
     (col r ''user_id'' = PStr user_id \<and> col r ''plugin_slug'' = PStr ''CollectionViewer'')"

definition module_row_of :: "string \<Rightarrow> row \<Rightarrow> bool" where
  "module_row_of user_id r =
     (col r ''user_id'' = PStr user_id \<and>
      col r ''plugin_id'' = PStr (user_id @ ''_CollectionViewer''))"

text \<open>The two rows that a successful installation inserts for a user.\<close>

definition new_plugin_row :: "env \<Rightarrow> string \<Rightarrow> row" where
  "new_plugin_row e user_id = plugin_params e user_id (user_id @ ''_CollectionViewer'') (now e)"

definition new_module_row :: "env \<Rightarrow> string \<Rightarrow> row" where
  "new_module_row e user_id =
     module_params e user_id (user_id @ ''_CollectionViewer'')
       (user_id @ ''_CollectionViewer_CollectionViewer'') (hd module_data) (now e)"

text \<open>The result of a successful installation.\<close>

definition installed_result :: "string \<Rightarrow> dict" where
  "installed_result user_id =
     [(''success'', PBool True),
      (''plugin_id'', PStr (user_id @ ''_CollectionViewer'')),
      (''plugin_slug'', PStr ''CollectionViewer''),
      (''plugin_name'', PStr ''CollectionViewer''),
      (''modules_created'', PList [PStr (user_id @ ''_CollectionViewer_CollectionViewer'')])]"

text \<open>The parameters of the two \<^verbatim>\<open>DELETE\<close> statements and the rows they match.\<close>

definition delete_params :: "string \<Rightarrow> pyval \<Rightarrow> row" where
  "delete_params user_id plugin_id = [(''plugin_id'', plugin_id), (''user_id'', PStr user_id)]"

definition pdm :: "string \<Rightarrow> pyval \<Rightarrow> row \<Rightarrow> bool" where
  "pdm user_id plugin_id = plugin_delete_matches (delete_params user_id plugin_id)"

definition mdm :: "string \<Rightarrow> pyval \<Rightarrow> row \<Rightarrow> bool" where
  "mdm user_id plugin_id = module_delete_matches (delete_params user_id plugin_id)"



definition deleted :: "string \<Rightarrow> pyval \<Rightarrow> db_session \<Rightarrow> db_session" where
  "deleted u pid s =
     s\<lparr> plugin_tbl := filter (\<lambda>r. \<not> pdm u pid r) (plugin_tbl s),
        module_tbl := filter (\<lambda>r. \<not> mdm u pid r) (module_tbl s),
        committed_plugin := filter (\<lambda>r. \<not> pdm u pid r) (plugin_tbl s),
        committed_module := filter (\<lambda>r. \<not> mdm u pid r) (module_tbl s),
        faults := tl (tl (tl (faults s))),
        calls := calls s @ [Execute Module_delete_stmt, Execute Plugin_delete_stmt, Commit] \<rparr>"

text \<open>
  What a failed operation leaves of the session: the committed tables are as before, and
  when no rollback can raise, the tables in view are either untouched or the committed ones.
\<close>

definition failed_frame :: "db_session \<Rightarrow> db_session \<Rightarrow> bool" where
  "failed_frame s s' =
     (committed_plugin s' = committed_plugin s \<and> committed_module s' = committed_module s \<and>
      (rollback_faults s = [] \<longrightarrow>
         rollback_faults s' = [] \<and>
         (plugin_tbl s' = plugin_tbl s \<and> module_tbl s' = module_tbl s \<or>
          plugin_tbl s' = committed_plugin s \<and> module_tbl s' = committed_module s)))"

text \<open>A result dictionary that reports failure.\<close>

definition is_fail :: "dict \<Rightarrow> bool" where
  "is_fail d = (getitem d ''success'' = Inr (PBool False))"

text \<open>The regular files of a tree, with their contents.\<close>

definition files_of :: "fsys \<Rightarrow> path \<Rightarrow> string option" where
  "files_of fs p = (case map_of fs p of Some (File c) \<Rightarrow> Some c | _ \<Rightarrow> None)"

text \<open>
  Notions for the copy of the plugin files. A path lies strictly below a directory; an
  item of the walk is copied when it is not the manager's own file and passes
  \<^verbatim>\<open>should_copy\<close>; the items the walk of a directory yields. A setting in which the
  copy can be followed exactly: no file operation raises, the target is a proper path
  with nothing below it, and the files of the tree have nothing below them. The
  invariant of the loop keeps the tree as it was and keeps every destination of a
  file free of directories.
\<close>

definition strictly_below :: "path \<Rightarrow> path \<Rightarrow> bool" where
  "strictly_below d p = (length d < length p \<and> take (length d) p = d)"







definition copies_kept :: "path \<Rightarrow> path \<Rightarrow> fsys \<Rightarrow> fsys \<Rightarrow> fsys \<Rightarrow> bool" where
  "copies_kept S T fs0 cur cur' =
     (\<forall>i c. strictly_below S i \<and> map_of fs0 i = Some (File c) \<and>
        map_of cur (T @ relative_to i S) = Some (File c) \<longrightarrow>
        map_of cur' (T @ relative_to i S) = Some (File c))"

section \<open>A concrete plugin directory, database and manager\<close>

text \<open>
  The inputs at which the theorems below are instantiated: a plugin directory with a
  package file, a bundle, the manager's own file, a dependency directory and a compiled
  file; surroundings in which nothing raises; an empty database; and a manager made for
  the base directory \<^verbatim>\<open>/srv\<close>.
\<close>

definition ex_env :: env where
  "ex_env =
     \<lparr> this_file = [''/'', ''plugins'', ''CollectionViewer'', ''lifecycle_manager.py''],
       host_base = True,
       now = ''2024-01-01 00:00:00'',
       fs_fault = (\<lambda>op. None),
       json_load = (\<lambda>c. if c = ''pkg''
                        then Inr (PDict [(''name'', PStr ''cv''), (''version'', PStr ''1'')])
                        else Inl (Exn JSONDecodeError ''Expecting value'')),
       json_dumps = (\<lambda>v. ''json''),
       dir_size = 4096 \<rparr>"

definition ex_fs :: fsys where
  "ex_fs =
     [([''/'', ''plugins'', ''CollectionViewer''], Dir),
      ([''/'', ''plugins'', ''CollectionViewer'', ''package.json''], File ''pkg''),
      ([''/'', ''plugins'', ''CollectionViewer'', ''dist''], Dir),
      ([''/'', ''plugins'', ''CollectionViewer'', ''dist'', ''remoteEntry.js''], File ''bundle''),
      ([''/'', ''plugins'', ''CollectionViewer'', ''lifecycle_manager.py''], File ''py''),
      ([''/'', ''plugins'', ''CollectionViewer'', ''node_modules''], Dir),
      ([''/'', ''plugins'', ''CollectionViewer'', ''node_modules'', ''x.js''], File ''x''),
      ([''/'', ''plugins'', ''CollectionViewer'', ''helper.pyc''], File ''bytecode'')]"

definition ex_db :: db_session where
  "ex_db =
     \<lparr> plugin_tbl = [], module_tbl = [], committed_plugin = [], committed_module = [],
       faults = [], rollback_faults = [], calls = [] \<rparr>"

definition ex_manager :: manager where
  "ex_manager = CollectionViewerLifecycleManager ex_env (Some ''/srv'')"

text \<open>The database after the plugin has been installed for the user \<^verbatim>\<open>u1\<close>.\<close>

definition ex_db_installed :: db_session where
  "ex_db_installed =
     \<lparr> plugin_tbl = [new_plugin_row ex_env ''u1''],
       module_tbl = [new_module_row ex_env ''u1''],
       committed_plugin = [new_plugin_row ex_env ''u1''],
       committed_module = [new_module_row ex_env ''u1''],
       faults = [], rollback_faults = [], calls = [] \<rparr>"

text \<open>The same database when the next call on the session raises.\<close>

definition ex_db_installed_failing :: db_session where
  "ex_db_installed_failing =
     ex_db_installed\<lparr> faults := [Some (Exn OtherException ''connection lost'')] \<rparr>"

text \<open>
  The manager once the user \<^verbatim>\<open>u1\<close> is among its active users, and a database that
  holds a module row of that user but no plugin row.
\<close>

definition ex_manager_active :: manager where
  "ex_manager_active = ex_manager\<lparr> active_users := {''u1''} \<rparr>"

definition ex_db_orphan :: db_session where
  "ex_db_orphan =
     \<lparr> plugin_tbl = [], module_tbl = [new_module_row ex_env ''u1''],
       committed_plugin = [], committed_module = [new_module_row ex_env ''u1''],
       faults = [], rollback_faults = [], calls = [] \<rparr>"








section \<open>Facts about the database operations\<close>

lemma slug [simp]: "pd_plugin_slug plugin_data = ''CollectionViewer''"
  by (simp add: plugin_data_def)

lemma plugin_name [simp]: "pd_name plugin_data = ''CollectionViewer''"
  by (simp add: plugin_data_def)


lemma plugin_query_matches_iff [simp]:
  "plugin_query_matches [(''user_id'', PStr u), (''plugin_slug'', PStr ''CollectionViewer'')]
     = plugin_row_of u"
  by (rule ext) (auto simp: plugin_query_matches_def plugin_row_of_def col_def sql_eq_def)

lemma check_existing_plugin_raises:
  "next_fault (faults s) = Some x \<Longrightarrow>
   check_existing_plugin u s =
     (Inr [(''exists'', PBool False), (''error'', PStr (str_exn x))],
      s\<lparr> faults := tl (faults s), calls := calls s @ [Execute Plugin_query] \<rparr>)"
  by (simp add: check_existing_plugin_def execute_def)

lemma check_existing_plugin_absent:
  "next_fault (faults s) = None \<Longrightarrow> filter (plugin_row_of u) (plugin_tbl s) = [] \<Longrightarrow>
   check_existing_plugin u s =
     (Inr [(''exists'', PBool False)],
      s\<lparr> faults := tl (faults s), calls := calls s @ [Execute Plugin_query] \<rparr>)"
  by (simp add: check_existing_plugin_def execute_def fetchone_def)

lemma check_existing_plugin_present:
  "next_fault (faults s) = None \<Longrightarrow> filter (plugin_row_of u) (plugin_tbl s) = r # rs \<Longrightarrow>
   check_existing_plugin u s =
     (Inr [(''exists'', PBool True), (''plugin_id'', col r ''id''),
           (''plugin_info'', PDict [(''id'', col r ''id''), (''name'', col r ''name''),
              (''version'', col r ''version''), (''enabled'', col r ''enabled'')])],
      s\<lparr> faults := tl (faults s), calls := calls s @ [Execute Plugin_query] \<rparr>)"
  by (simp add: check_existing_plugin_def execute_def fetchone_def select_columns_def col_def)


lemma rollback_and_fail_ok:
  "next_fault (rollback_faults s) = None \<Longrightarrow>
   rollback_and_fail x s =
     (Inr (success_false x),
      s\<lparr> plugin_tbl := committed_plugin s, module_tbl := committed_module s,
         rollback_faults := tl (rollback_faults s), calls := calls s @ [Rollback] \<rparr>)"
  by (cases s) (simp add: rollback_and_fail_def rollback_def)

lemma rollback_and_fail_raises:
  "next_fault (rollback_faults s) = Some y \<Longrightarrow>
   rollback_and_fail x s =
     (Inl y, s\<lparr> rollback_faults := tl (rollback_faults s), calls := calls s @ [Rollback] \<rparr>)"
  by (simp add: rollback_and_fail_def rollback_def)






lemma delete_fault1:
  "next_fault (faults s) = Some x \<Longrightarrow>
   delete_database_records u pid s =
     rollback_and_fail x (s\<lparr> faults := tl (faults s), calls := calls s @ [Execute Module_delete_stmt] \<rparr>)"
  by (cases s) (simp add: delete_database_records_def delete_database_records_try_def execute_def)

lemma delete_fault2:
  "next_fault (faults s) = None \<Longrightarrow> next_fault (tl (faults s)) = Some x \<Longrightarrow>
   delete_database_records u pid s =
     rollback_and_fail x
       (s\<lparr> module_tbl := filter (\<lambda>r. \<not> mdm u pid r) (module_tbl s),
          faults := tl (tl (faults s)),
          calls := calls s @ [Execute Module_delete_stmt, Execute Plugin_delete_stmt] \<rparr>)"
  by (cases s) (simp add: delete_database_records_def delete_database_records_try_def execute_def Let_def
      mdm_def delete_params_def)

lemma delete_none_rolled_back:
  "next_fault (faults s) = None \<Longrightarrow> next_fault (tl (faults s)) = None \<Longrightarrow>
   filter (pdm u pid) (plugin_tbl s) = [] \<Longrightarrow> next_fault (rollback_faults s) = None \<Longrightarrow>
   delete_database_records u pid s =
     (Inr [(''success'', PBool False), (''error'', PStr ''Plugin not found'')],
      s\<lparr> plugin_tbl := committed_plugin s, module_tbl := committed_module s,
         faults := tl (tl (faults s)), rollback_faults := tl (rollback_faults s),
         calls := calls s @ [Execute Module_delete_stmt, Execute Plugin_delete_stmt, Rollback] \<rparr>)"
  by (cases s) (simp add: delete_database_records_def delete_database_records_try_def execute_def Let_def
      mdm_def pdm_def delete_params_def rollback_def)

lemma delete_none_rollback_raises:
  "next_fault (faults s) = None \<Longrightarrow> next_fault (tl (faults s)) = None \<Longrightarrow>
   filter (pdm u pid) (plugin_tbl s) = [] \<Longrightarrow> next_fault (rollback_faults s) = Some y \<Longrightarrow>
   delete_database_records u pid s =
     rollback_and_fail y
       (s\<lparr> plugin_tbl := filter (\<lambda>r. \<not> pdm u pid r) (plugin_tbl s),
          module_tbl := filter (\<lambda>r. \<not> mdm u pid r) (module_tbl s),
          faults := tl (tl (faults s)), rollback_faults := tl (rollback_faults s),
          calls := calls s @ [Execute Module_delete_stmt, Execute Plugin_delete_stmt, Rollback] \<rparr>)"
  by (cases s) (simp add: delete_database_records_def delete_database_records_try_def execute_def Let_def
      mdm_def pdm_def delete_params_def rollback_def)

lemma delete_fault3:
  "next_fault (faults s) = None \<Longrightarrow> next_fault (tl (faults s)) = None \<Longrightarrow>
   filter (pdm u pid) (plugin_tbl s) \<noteq> [] \<Longrightarrow> next_fault (tl (tl (faults s))) = Some x \<Longrightarrow>
   delete_database_records u pid s =
     rollback_and_fail x
       (s\<lparr> plugin_tbl := filter (\<lambda>r. \<not> pdm u pid r) (plugin_tbl s),
          module_tbl := filter (\<lambda>r. \<not> mdm u pid r) (module_tbl s),
          faults := tl (tl (tl (faults s))),
          calls := calls s @ [Execute Module_delete_stmt, Execute Plugin_delete_stmt, Commit] \<rparr>)"
  by (cases s) (simp add: delete_database_records_def delete_database_records_try_def execute_def Let_def
      mdm_def pdm_def delete_params_def commit_def)

lemma delete_ok:
  "next_fault (faults s) = None \<Longrightarrow> next_fault (tl (faults s)) = None \<Longrightarrow>
   filter (pdm u pid) (plugin_tbl s) \<noteq> [] \<Longrightarrow> next_fault (tl (tl (faults s))) = None \<Longrightarrow>
   delete_database_records u pid s =
     (Inr [(''success'', PBool True),
           (''deleted_modules'', PInt (int (length (filter (mdm u pid) (module_tbl s)))))],
      s\<lparr> plugin_tbl := filter (\<lambda>r. \<not> pdm u pid r) (plugin_tbl s),
         module_tbl := filter (\<lambda>r. \<not> mdm u pid r) (module_tbl s),
         committed_plugin := filter (\<lambda>r. \<not> pdm u pid r) (plugin_tbl s),
         committed_module := filter (\<lambda>r. \<not> mdm u pid r) (module_tbl s),
         faults := tl (tl (tl (faults s))),
         calls := calls s @ [Execute Module_delete_stmt, Execute Plugin_delete_stmt, Commit] \<rparr>)"
  by (cases s) (simp add: delete_database_records_def delete_database_records_try_def execute_def Let_def
      mdm_def pdm_def delete_params_def commit_def)

lemma is_fail_success_false [simp]: "is_fail (success_false x)"
  by (simp add: is_fail_def success_false_def getitem_def)

lemma rollback_and_fail_outcome:
  assumes "committed_plugin s1 = committed_plugin s" "committed_module s1 = committed_module s"
    and "rollback_faults s = [] \<longrightarrow> rollback_faults s1 = []"
  shows "\<exists>r s'. rollback_and_fail x s1 = (r, s') \<and> (r = Inr (success_false x) \<or> (\<exists>y. r = Inl y)) \<and>
           failed_frame s s' \<and> last (calls s') = Rollback \<and>
           (\<forall>d. r = Inr d \<longrightarrow> plugin_tbl s' = committed_plugin s' \<and> module_tbl s' = committed_module s')"
proof (cases "next_fault (rollback_faults s1)")
  case None
  show ?thesis
    using assms by (simp add: rollback_and_fail_ok [OF None] failed_frame_def)
next
  case (Some y)
  then have "rollback_faults s1 \<noteq> []" by (auto simp: next_fault_def)
  with assms show ?thesis
    by (simp add: rollback_and_fail_raises [OF Some] failed_frame_def)
qed



lemma failed_frame_refl [simp]: "failed_frame s s"
  by (simp add: failed_frame_def)


lemma delete_outcome:
  "(next_fault (faults s) = None \<and> next_fault (tl (faults s)) = None \<and>
    next_fault (tl (tl (faults s))) = None \<and> filter (pdm u pid) (plugin_tbl s) \<noteq> [] \<and>
    delete_database_records u pid s =
      (Inr [(''success'', PBool True),
            (''deleted_modules'', PInt (int (length (filter (mdm u pid) (module_tbl s)))))],
       deleted u pid s))
   \<or> (\<exists>r s'. delete_database_records u pid s = (r, s') \<and>
          ((\<exists>d. r = Inr d \<and> is_fail d) \<or> (\<exists>y. r = Inl y)) \<and> failed_frame s s' \<and>
          last (calls s') = Rollback \<and>
          (\<forall>d. r = Inr d \<longrightarrow> plugin_tbl s' = committed_plugin s' \<and> module_tbl s' = committed_module s'))"
proof (cases "next_fault (faults s)")
  case (Some x)
  from rollback_and_fail_outcome
    [of "s\<lparr> faults := tl (faults s), calls := calls s @ [Execute Module_delete_stmt] \<rparr>" s x]
  show ?thesis by (simp add: delete_fault1 [OF Some]) (metis is_fail_success_false)
next
  case n0: None
  show ?thesis
  proof (cases "next_fault (tl (faults s))")
    case (Some x)
    from rollback_and_fail_outcome
      [of "s\<lparr> module_tbl := filter (\<lambda>r. \<not> mdm u pid r) (module_tbl s),
          faults := tl (tl (faults s)),
          calls := calls s @ [Execute Module_delete_stmt, Execute Plugin_delete_stmt] \<rparr>" s x]
    show ?thesis by (simp add: delete_fault2 [OF n0 Some]) (metis is_fail_success_false)
  next
    case n1: None
    show ?thesis
    proof (cases "filter (pdm u pid) (plugin_tbl s) = []")
      case empty: True
      show ?thesis
      proof (cases "next_fault (rollback_faults s)")
        case None
        show ?thesis
          by (simp add: delete_none_rolled_back [OF n0 n1 empty None] failed_frame_def
              is_fail_def getitem_def)
      next
        case (Some y)
        from rollback_and_fail_outcome
          [of "s\<lparr> plugin_tbl := filter (\<lambda>r. \<not> pdm u pid r) (plugin_tbl s),
          module_tbl := filter (\<lambda>r. \<not> mdm u pid r) (module_tbl s),
          faults := tl (tl (faults s)), rollback_faults := tl (rollback_faults s),
          calls := calls s @ [Execute Module_delete_stmt, Execute Plugin_delete_stmt, Rollback] \<rparr>" s y]
        show ?thesis
          by (simp add: delete_none_rollback_raises [OF n0 n1 empty Some])
             (metis is_fail_success_false)
      qed
    next
      case nonempty: False
      show ?thesis
      proof (cases "next_fault (tl (tl (faults s)))")
        case (Some x)
        from rollback_and_fail_outcome
          [of "s\<lparr> plugin_tbl := filter (\<lambda>r. \<not> pdm u pid r) (plugin_tbl s),
          module_tbl := filter (\<lambda>r. \<not> mdm u pid r) (module_tbl s),
          faults := tl (tl (tl (faults s))),
          calls := calls s @ [Execute Module_delete_stmt, Execute Plugin_delete_stmt, Commit] \<rparr>" s x]
        show ?thesis
          by (simp add: delete_fault3 [OF n0 n1 nonempty Some]) (metis is_fail_success_false)
      next
        case n2: None
        show ?thesis
          using n0 n1 n2 nonempty by (simp add: delete_ok deleted_def)
      qed
    qed
  qed
qed











lemma perform_uninstall_no_row:
  "filter (plugin_row_of u) (plugin_tbl s) = [] \<Longrightarrow>
   perform_user_uninstallation u s =
     (Inr [(''success'', PBool False), (''error'', PStr ''Plugin not found for user'')],
      s\<lparr> faults := tl (faults s), calls := calls s @ [Execute Plugin_query] \<rparr>)"
  by (cases "next_fault (faults s)")
     (simp_all add: perform_user_uninstallation_def perform_user_uninstallation_try_def
        check_existing_plugin_absent check_existing_plugin_raises getitem_def)





lemma plugin_row_of_new [simp]: "plugin_row_of u (new_plugin_row e u)"
  by (simp add: plugin_row_of_def new_plugin_row_def plugin_params_def col_def)

lemma new_plugin_row_id [simp]: "col (new_plugin_row e u) ''id'' = PStr (u @ ''_CollectionViewer'')"
  by (simp add: new_plugin_row_def plugin_params_def col_def)

lemma module_row_of_new [simp]: "module_row_of u (new_module_row e u)"
  by (simp add: module_row_of_def new_module_row_def module_params_def col_def)

lemma pdm_new [simp]: "pdm u (PStr (u @ ''_CollectionViewer'')) (new_plugin_row e u)"
  by (simp add: pdm_def plugin_delete_matches_def delete_params_def sql_eq_def
      new_plugin_row_def plugin_params_def col_def)

lemma mdm_of_module_row: "module_row_of u r \<Longrightarrow> mdm u (PStr (u @ ''_CollectionViewer'')) r"
  by (simp add: mdm_def module_delete_matches_def delete_params_def sql_eq_def
      module_row_of_def col_def)

lemma mdm_new [simp]: "mdm u (PStr (u @ ''_CollectionViewer'')) (new_module_row e u)"
  by (rule mdm_of_module_row) simp



section \<open>Facts about paths and the file tree\<close>

lemma Path_literals [simp]:
  "Path ''package.json'' = [''package.json'']"
  "Path ''dist/remoteEntry.js'' = [''dist'', ''remoteEntry.js'']"
  "Path ''dist'' = [''dist'']"
  "Path ''remoteEntry.js'' = [''remoteEntry.js'']"
  "Path ''lifecycle_manager.py'' = [''lifecycle_manager.py'']"
  "Path ''shared'' = [''shared'']"
  "Path ''CollectionViewer'' = [''CollectionViewer'']"
  "Path ''v1.0.0'' = [''v1.0.0'']"
  by (simp_all add: Path_def)

lemma pjoin_literals [simp]:
  "pjoin p ''package.json'' = p @ [''package.json'']"
  "pjoin p ''dist/remoteEntry.js'' = p @ [''dist'', ''remoteEntry.js'']"
  "pjoin p ''dist'' = p @ [''dist'']"
  "pjoin p ''remoteEntry.js'' = p @ [''remoteEntry.js'']"
  "pjoin p ''lifecycle_manager.py'' = p @ [''lifecycle_manager.py'']"
  "pjoin p ''shared'' = p @ [''shared'']"
  "pjoin p ''CollectionViewer'' = p @ [''CollectionViewer'']"
  "pjoin p ''v1.0.0'' = p @ [''v1.0.0'']"
  by (simp_all add: pjoin_def pjoin_path_def is_absolute_def)

lemma files_of_update_Dir:
  "map_of fs q = None \<Longrightarrow> files_of (AList.update q Dir fs) = files_of fs"
  by (rule ext) (simp add: files_of_def update_conv')

lemma files_of_mkdir_fold:
  "files_of (fold (\<lambda>q acc. if map_of acc q = None then AList.update q Dir acc else acc) ps fs)
     = files_of fs"
  by (induction ps arbitrary: fs) (simp_all add: files_of_update_Dir)

lemma mkdir_files: "mkdir_parents e p fs = Inr fs' \<Longrightarrow> files_of fs' = files_of fs"
  by (auto simp: mkdir_parents_def files_of_mkdir_fold split: option.splits)

lemma files_of_update_File:
  "files_of (AList.update q (File c) fs) = (files_of fs)(q \<mapsto> c)"
  by (rule ext) (simp add: files_of_def update_conv')

lemma files_of_delete: "files_of (AList.delete q fs) = (files_of fs)(q := None)"
  by (rule ext) (simp add: files_of_def delete_conv')

lemma copy2_files:
  "copy2 e src dst fs = Inr fs' \<Longrightarrow>
   \<exists>c. files_of fs src = Some c \<and>
       files_of fs' = (files_of fs)((if is_dir fs dst then dst @ [name_of src] else dst) \<mapsto> c)"
  by (auto simp: copy2_def files_of_update_File files_of_def split: option.splits node.splits)

lemma unlink_files: "unlink e p fs = Inr fs' \<Longrightarrow> files_of fs' = (files_of fs)(p := None)"
  by (auto simp: unlink_def files_of_delete split: option.splits)

lemma is_file_files_of: "is_file fs p = (files_of fs p \<noteq> None)"
  by (simp add: is_file_def files_of_def split: option.splits node.splits)








lemma install_plugin_fs:
  assumes "install_plugin e m u s fs = (r, m', s', fs')"
  shows "fs' = fs \<or>
         (\<exists>fs1 cr. mkdir_parents e (shared_path m) fs = Inr fs1 \<and>
            copy_plugin_files_impl e u (shared_path m) False fs1 = (cr, fs'))"
  using assms
  by (auto simp: install_plugin_def install_plugin_try_def install_plugin_proceed_def
      split: prod.splits sum.splits if_splits)


lemma shared_path_Some [simp]:
  "b \<noteq> [] \<Longrightarrow> shared_path (CollectionViewerLifecycleManager e (Some b)) =
     Path b @ [''shared'', ''CollectionViewer'', ''v1.0.0'']"
  by (simp add: CollectionViewerLifecycleManager_def plugin_data_def)

text \<open>Copying to a target directory: every file that differs afterwards lies in the target.\<close>

lemma copy2_frame:
  assumes "copy2 e src (T @ rel) fs = Inr fs'" "files_of fs' p \<noteq> files_of fs p"
  shows "take (length T) p = T"
proof -
  from copy2_files [OF assms(1)] obtain c where
    f: "files_of fs' = (files_of fs)((if is_dir fs (T @ rel) then (T @ rel) @ [name_of src] else T @ rel) \<mapsto> c)"
    by blast
  with assms(2) have "p = (if is_dir fs (T @ rel) then (T @ rel) @ [name_of src] else T @ rel)"
    by (auto split: if_splits)
  then show ?thesis by (auto split: if_splits)
qed

lemma copy_item_frame:
  assumes "copy_item e item (T @ rel) upd fs = (r, fs')" "files_of fs' p \<noteq> files_of fs p"
  shows "take (length T) p = T"
proof (cases "is_file fs item")
  case True
  show ?thesis
  proof (cases "mkdir_parents e (parent (T @ rel)) fs")
    case (Inl x)
    with assms True show ?thesis by (simp add: copy_item_def)
  next
    case (Inr fs1)
    note m = mkdir_files [OF Inr]
    show ?thesis
    proof (cases "if upd \<and> path_exists fs1 (T @ rel) then unlink e (T @ rel) fs1 else Inr fs1")
      case (Inl x)
      with assms True Inr m show ?thesis by (auto simp: copy_item_def)
    next
      case u: (Inr fs2)
      have f2: "files_of fs2 q \<noteq> files_of fs q \<Longrightarrow> take (length T) q = T" for q
        using u m by (auto split: if_splits dest!: unlink_files)
      show ?thesis
      proof (cases "copy2 e item (T @ rel) fs2")
        case (Inl x)
        with assms True Inr u f2 show ?thesis by (auto simp: copy_item_def)
      next
        case c: (Inr fs3)
        with assms True Inr u have "fs' = fs3" by (auto simp: copy_item_def)
        with copy2_frame [OF c, of p] f2 [of p] assms(2) show ?thesis by metis
      qed
    qed
  qed
next
  case False
  with assms show ?thesis
    by (auto simp: copy_item_def dest: mkdir_files split: if_splits sum.splits)
qed

lemma copy_items_frame:
  assumes "files_of (snd (copy_items e S T upd items copied fs)) p \<noteq> files_of fs p"
  shows "take (length T) p = T"
  using assms
proof (induction items arbitrary: copied fs)
  case Nil
  then show ?case by simp
next
  case (Cons item items)
  obtain r fs1 where ci: "copy_item e item (T @ relative_to item S) upd fs = (r, fs1)"
    by (cases "copy_item e item (T @ relative_to item S) upd fs") auto
  show ?case
  proof (cases "files_of fs1 p = files_of fs p")
    case False
    with copy_item_frame [OF ci] show ?thesis by blast
  next
    case True
    have step: "files_of (snd (copy_items e S T upd items c' fs1)) p \<noteq> files_of fs p \<Longrightarrow> ?thesis"
      for c'
      using Cons.IH [of c' fs1] True by simp
    from Cons.prems show ?thesis
    proof (cases "name_of item = ''lifecycle_manager.py'' \<and> item = this_file e")
      case skip: True
      then have eq: "copy_items e S T upd (item # items) copied fs =
                       copy_items e S T upd items copied fs"
        by auto
      from Cons.prems [unfolded eq] Cons.IH [of copied fs] show ?thesis by blast
    next
      case noskip: False
      show ?thesis
      proof (cases "should_copy (relative_to item S)")
        case False
        with noskip have eq: "copy_items e S T upd (item # items) copied fs =
                       copy_items e S T upd items copied fs"
          by (simp add: Let_def)
        from Cons.prems [unfolded eq] Cons.IH [of copied fs] show ?thesis by blast
      next
        case sc: True
        from noskip sc ci have "\<exists>c'. copy_items e S T upd (item # items) copied fs =
                       copy_items e S T upd items c' fs1"
          by (cases r) (auto simp: Let_def)
        then obtain c' where eq: "copy_items e S T upd (item # items) copied fs =
                       copy_items e S T upd items c' fs1" ..
        from Cons.prems [unfolded eq] step [of c'] show ?thesis by blast
      qed
    qed
  qed
qed

lemma copy_plugin_files_frame:
  assumes "copy_plugin_files_impl e u T upd fs = (r, fs')" "files_of fs' p \<noteq> files_of fs p"
  shows "take (length T) p = T"
proof (cases "rglob e (parent (this_file e)) fs")
  case (Inl x)
  with assms show ?thesis by (simp add: copy_plugin_files_impl_def)
next
  case (Inr items)
  let ?S = "parent (this_file e)"
  obtain copied fs1 where l: "copy_items e ?S T upd items [] fs = (copied, fs1)"
    by (cases "copy_items e ?S T upd items [] fs") auto
  have f1: "files_of fs1 q \<noteq> files_of fs q \<Longrightarrow> take (length T) q = T" for q
    using copy_items_frame [of e ?S T upd items "[]" fs q] l by simp
  show ?thesis
  proof (cases "path_exists fs1 (?S @ [''lifecycle_manager.py''])")
    case False
    with assms Inr l f1 show ?thesis by (auto simp: copy_plugin_files_impl_def)
  next
    case True
    show ?thesis
    proof (cases "mkdir_parents e (parent (T @ [''lifecycle_manager.py''])) fs1")
      case (Inl x)
      with assms Inr l f1 True show ?thesis by (auto simp: copy_plugin_files_impl_def)
    next
      case m: (Inr fs2)
      note f2 = mkdir_files [OF m]
      show ?thesis
      proof (cases "if upd \<and> path_exists fs2 (T @ [''lifecycle_manager.py''])
                    then unlink e (T @ [''lifecycle_manager.py'']) fs2 else Inr fs2")
        case (Inl x)
        with assms Inr l f1 True m f2 show ?thesis by (auto simp: copy_plugin_files_impl_def)
      next
        case un: (Inr fs3)
        have f3: "files_of fs3 q \<noteq> files_of fs q \<Longrightarrow> take (length T) q = T" for q
          using un f2 f1 [of q] by (auto split: if_splits dest!: unlink_files)
        show ?thesis
        proof (cases "copy2 e (?S @ [''lifecycle_manager.py'']) (T @ [''lifecycle_manager.py'']) fs3")
          case (Inl x)
          with assms Inr l True m un f3 show ?thesis by (auto simp: copy_plugin_files_impl_def)
        next
          case c: (Inr fs4)
          with assms Inr l True m un have "fs' = fs4" by (auto simp: copy_plugin_files_impl_def)
          with copy2_frame [OF c, of p] f3 [of p] assms(2) show ?thesis by metis
        qed
      qed
    qed
  qed
qed

section \<open>Facts about the copy of the plugin files\<close>

















lemma copies_kept_refl [simp]: "copies_kept S T fs0 cur cur"
  by (simp add: copies_kept_def)














section \<open>Facts about exceptions\<close>



lemma check_returns: "\<exists>d s'. check_existing_plugin u s = (Inr d, s')"
  by (simp add: check_existing_plugin_def split: sum.splits option.splits prod.splits)

















section \<open>The guard against a second installation\<close>

text \<open>
  Claim C1, as amended. When a plugin row of the user for this plugin exists and the
  query of the existence check returns without raising, \<^verbatim>\<open>install_plugin\<close> returns
  the failure \<^verbatim>\<open>Plugin already installed\<close>; the manager and the file tree are as
  before, and the session has seen the one query and nothing else: no file is copied
  and no row is inserted.
\<close>

theorem install_plugin_already_installed:
  assumes "r \<in> set (plugin_tbl s)" and "plugin_row_of user_id r"
    and "next_fault (faults s) = None"
  shows "install_plugin e m user_id s fs =
           (Inr [(''success'', PBool False), (''error'', PStr ''Plugin already installed'')],
            m, s\<lparr> faults := tl (faults s), calls := calls s @ [Execute Plugin_query] \<rparr>, fs)"
proof -
  from assms(1,2) have "filter (plugin_row_of user_id) (plugin_tbl s) \<noteq> []"
    by (auto simp: filter_empty_conv)
  then obtain r' rs where "filter (plugin_row_of user_id) (plugin_tbl s) = r' # rs"
    by (cases "filter (plugin_row_of user_id) (plugin_tbl s)") auto
  with assms(3) show ?thesis
    by (simp add: install_plugin_def install_plugin_try_def check_existing_plugin_present getitem_def)
qed

theorem install_plugin_already_installed_witness:
  "plugin_row_of ''u1'' (new_plugin_row ex_env ''u1'') \<and>
   install_plugin ex_env ex_manager ''u1'' ex_db_installed ex_fs =
     (Inr [(''success'', PBool False), (''error'', PStr ''Plugin already installed'')],
      ex_manager, ex_db_installed\<lparr> calls := [Execute Plugin_query] \<rparr>, ex_fs)"
proof -
  have r: "new_plugin_row ex_env ''u1'' \<in> set (plugin_tbl ex_db_installed)"
    by (simp add: ex_db_installed_def)
  have p: "plugin_row_of ''u1'' (new_plugin_row ex_env ''u1'')"
    by code_simp
  have f: "next_fault (faults ex_db_installed) = None"
    by (simp add: ex_db_installed_def next_fault_def)
  from install_plugin_already_installed [OF r p f, of ex_env ex_manager ex_fs] p
  show ?thesis by (simp add: ex_db_installed_def)
qed

text \<open>
  The claim as stated fails where the query of the check raises: the user \<^verbatim>\<open>u1\<close> has
  a plugin row, the first call on the session raises, and \<^verbatim>\<open>install_plugin\<close> copies
  the files and inserts a second plugin row and a second module row.
\<close>

theorem install_plugin_guard_counterexample:
  "plugin_row_of ''u1'' (hd (plugin_tbl ex_db_installed_failing)) \<and>
   (case install_plugin ex_env ex_manager ''u1'' ex_db_installed_failing ex_fs of
      (res, m, s, fs) \<Rightarrow>
        res = Inr (installed_result ''u1'') \<and>
        length (plugin_tbl s) = 2 \<and> length (module_tbl s) = 2 \<and>
        is_file fs [''/'', ''srv'', ''shared'', ''CollectionViewer'', ''v1.0.0'',
                    ''lifecycle_manager.py''] \<and>
        \<not> is_file ex_fs [''/'', ''srv'', ''shared'', ''CollectionViewer'', ''v1.0.0'',
                        ''lifecycle_manager.py''])"
  by code_simp

section \<open>Uninstalling where nothing is installed\<close>

text \<open>
  Claim C2. For a user without a plugin row for this plugin, \<^verbatim>\<open>delete_plugin\<close>
  returns a failure and leaves the manager and every table as they were: when the user
  is among the manager's active users the session has seen the one query of the
  existence check, otherwise it has seen nothing. And when \<^verbatim>\<open>_delete_database_records\<close>
  is called with a plugin id that no plugin row of the user carries, it never commits:
  the committed tables are as before, its last call on the session is a rollback, and
  whenever it returns, it returns a failure with the tables rolled back to the committed
  ones, so the module rows it deleted are back.
\<close>

theorem delete_plugin_not_installed:
  "(filter (plugin_row_of user_id) (plugin_tbl s) = [] \<longrightarrow>
      delete_plugin e m user_id s =
        (if user_id \<in> active_users m
         then (Inr [(''success'', PBool False), (''error'', PStr ''Plugin not found for user'')],
               m, s\<lparr> faults := tl (faults s), calls := calls s @ [Execute Plugin_query] \<rparr>)
         else (Inr [(''success'', PBool False), (''error'', PStr ''Plugin not installed for user'')],
               m, s))) \<and>
   (filter (pdm user_id plugin_id) (plugin_tbl s) = [] \<longrightarrow>
      (\<exists>r s'. delete_database_records user_id plugin_id s = (r, s') \<and>
         committed_plugin s' = committed_plugin s \<and> committed_module s' = committed_module s \<and>
         last (calls s') = Rollback \<and>
         (\<forall>d. r = Inr d \<longrightarrow>
            is_fail d \<and> plugin_tbl s' = committed_plugin s \<and> module_tbl s' = committed_module s)))"
proof (intro conjI impI)
  assume "filter (plugin_row_of user_id) (plugin_tbl s) = []"
  then show "delete_plugin e m user_id s =
        (if user_id \<in> active_users m
         then (Inr [(''success'', PBool False), (''error'', PStr ''Plugin not found for user'')],
               m, s\<lparr> faults := tl (faults s), calls := calls s @ [Execute Plugin_query] \<rparr>)
         else (Inr [(''success'', PBool False), (''error'', PStr ''Plugin not installed for user'')],
               m, s))"
    by (simp add: delete_plugin_def uninstall_for_user_def perform_uninstall_no_row getitem_def)
next
  assume empty: "filter (pdm user_id plugin_id) (plugin_tbl s) = []"
  from delete_outcome [of s user_id plugin_id] empty
  show "\<exists>r s'. delete_database_records user_id plugin_id s = (r, s') \<and>
         committed_plugin s' = committed_plugin s \<and> committed_module s' = committed_module s \<and>
         last (calls s') = Rollback \<and>
         (\<forall>d. r = Inr d \<longrightarrow>
            is_fail d \<and> plugin_tbl s' = committed_plugin s \<and> module_tbl s' = committed_module s)"
    by (auto simp: failed_frame_def)
qed

theorem delete_plugin_not_installed_witness:
  "delete_plugin ex_env ex_manager_active ''u1'' ex_db =
     (Inr [(''success'', PBool False), (''error'', PStr ''Plugin not found for user'')],
      ex_manager_active, ex_db\<lparr> calls := [Execute Plugin_query] \<rparr>) \<and>
   fst (delete_database_records ''u1'' (PStr ''u1_CollectionViewer'') ex_db_orphan) =
     Inr [(''success'', PBool False), (''error'', PStr ''Plugin not found'')] \<and>
   module_tbl (snd (delete_database_records ''u1'' (PStr ''u1_CollectionViewer'') ex_db_orphan)) =
     [new_module_row ex_env ''u1''] \<and>
   committed_module (snd (delete_database_records ''u1'' (PStr ''u1_CollectionViewer'') ex_db_orphan)) =
     [new_module_row ex_env ''u1'']"
proof -
  have a: "filter (plugin_row_of ''u1'') (plugin_tbl ex_db) = []"
    by (simp add: ex_db_def)
  have b: "filter (pdm ''u1'' (PStr ''u1_CollectionViewer'')) (plugin_tbl ex_db_orphan) = []"
    by (simp add: ex_db_orphan_def)
  have c: "''u1'' \<in> active_users ex_manager_active"
    by (simp add: ex_manager_active_def)
  have f: "fst (delete_database_records ''u1'' (PStr ''u1_CollectionViewer'') ex_db_orphan) =
     Inr [(''success'', PBool False), (''error'', PStr ''Plugin not found'')]"
    by code_simp
  note t = delete_plugin_not_installed
    [of "''u1''" ex_db ex_env ex_manager_active "PStr ''u1_CollectionViewer''"]
  note t2 = delete_plugin_not_installed
    [of "''u1''" ex_db_orphan ex_env ex_manager_active "PStr ''u1_CollectionViewer''"]
  from t a c have 1: "delete_plugin ex_env ex_manager_active ''u1'' ex_db =
     (Inr [(''success'', PBool False), (''error'', PStr ''Plugin not found for user'')],
      ex_manager_active, ex_db\<lparr> calls := [Execute Plugin_query] \<rparr>)"
    by (simp add: ex_db_def)
  from t2 b f have 2: "module_tbl (snd (delete_database_records ''u1'' (PStr ''u1_CollectionViewer'') ex_db_orphan)) =
     [new_module_row ex_env ''u1''] \<and>
   committed_module (snd (delete_database_records ''u1'' (PStr ''u1_CollectionViewer'') ex_db_orphan)) =
     [new_module_row ex_env ''u1'']"
    by (auto simp: ex_db_orphan_def)
  from 1 2 f show ?thesis by simp
qed

section \<open>Rows after installing and after uninstalling\<close>



section \<open>A failed existence check\<close>



section \<open>Validation of the bundle\<close>




section \<open>The shared storage path\<close>

text \<open>
  Claim C8, as amended. For every base directory that is a non-empty string, the
  manager's shared storage path is the base directory followed by \<^verbatim>\<open>shared\<close>,
  \<^verbatim>\<open>CollectionViewer\<close> and \<^verbatim>\<open>v1.0.0\<close>, and every path at which the files of the
  tree differ after \<^verbatim>\<open>install_plugin\<close> lies in that directory.
\<close>

theorem shared_path_from_base_dir:
  assumes "plugins_base_dir \<noteq> []"
  shows "shared_path (CollectionViewerLifecycleManager e (Some plugins_base_dir)) =
           Path plugins_base_dir @ [''shared'', ''CollectionViewer'', ''v1.0.0''] \<and>
         (standalone_install_plugin e user_id s fs (Some plugins_base_dir) = (r, m', s', fs') \<and>
          files_of fs' p \<noteq> files_of fs p \<longrightarrow>
            take (length (Path plugins_base_dir @ [''shared'', ''CollectionViewer'', ''v1.0.0''])) p =
              Path plugins_base_dir @ [''shared'', ''CollectionViewer'', ''v1.0.0''])"
proof (intro conjI impI)
  show sp: "shared_path (CollectionViewerLifecycleManager e (Some plugins_base_dir)) =
           Path plugins_base_dir @ [''shared'', ''CollectionViewer'', ''v1.0.0'']"
    using assms by simp
  let ?T = "Path plugins_base_dir @ [''shared'', ''CollectionViewer'', ''v1.0.0'']"
  assume a: "standalone_install_plugin e user_id s fs (Some plugins_base_dir) = (r, m', s', fs') \<and>
          files_of fs' p \<noteq> files_of fs p"
  then have "install_plugin e (CollectionViewerLifecycleManager e (Some plugins_base_dir)) user_id s fs
               = (r, m', s', fs')"
    by (simp add: standalone_install_plugin_def)
  from install_plugin_fs [OF this] a
  obtain fs1 cr where "mkdir_parents e ?T fs = Inr fs1"
    and "copy_plugin_files_impl e user_id ?T False fs1 = (cr, fs')"
    by (auto simp: sp)
  from mkdir_files [OF this(1)] copy_plugin_files_frame [OF this(2), of p] a
  show "take (length ?T) p = ?T" by simp
qed

theorem shared_path_from_base_dir_witness:
  "shared_path (CollectionViewerLifecycleManager ex_env (Some ''/srv'')) =
     [''/'', ''srv'', ''shared'', ''CollectionViewer'', ''v1.0.0''] \<and>
   files_of ex_fs [''/'', ''srv'', ''shared'', ''CollectionViewer'', ''v1.0.0'', ''package.json''] = None \<and>
   files_of (snd (snd (snd (standalone_install_plugin ex_env ''u1'' ex_db ex_fs (Some ''/srv'')))))
     [''/'', ''srv'', ''shared'', ''CollectionViewer'', ''v1.0.0'', ''package.json''] = Some ''pkg''"
proof -
  have ne: "''/srv'' \<noteq> []" by simp
  have P: "Path ''/srv'' = [''/'', ''srv'']" by (simp add: Path_def)
  have a: "files_of ex_fs [''/'', ''srv'', ''shared'', ''CollectionViewer'', ''v1.0.0'', ''package.json''] = None"
    by (simp add: files_of_def ex_fs_def)
  have b: "files_of (snd (snd (snd (standalone_install_plugin ex_env ''u1'' ex_db ex_fs (Some ''/srv'')))))
     [''/'', ''srv'', ''shared'', ''CollectionViewer'', ''v1.0.0'', ''package.json''] = Some ''pkg''"
    by code_simp
  from shared_path_from_base_dir [OF ne, of ex_env] P a b show ?thesis by simp
qed

text \<open>
  The claim as stated fails for the empty string, which is not \<^verbatim>\<open>None\<close> but is
  falsy: the shared storage path is then the plugin's own directory.
\<close>

theorem shared_path_empty_base_dir_counterexample:
  "shared_path (CollectionViewerLifecycleManager ex_env (Some [])) =
     [''/'', ''plugins'', ''CollectionViewer''] \<and>
   shared_path (CollectionViewerLifecycleManager ex_env (Some [])) \<noteq>
     Path [] @ [''shared'', ''CollectionViewer'', ''v1.0.0'']"
  by code_simp



section \<open>Which files are copied\<close>




section \<open>Exceptions at the boundary of an operation\<close>




end
